theory Spec2Isabelle
  imports Complex_Main
begin

section \<open>The fragment shader of the ocean background\<close>

text \<open>
  The GLSL fragment stage of \<^verbatim>\<open>src/main.js\<close> (lines 25--90) is embedded function by
  function. A GLSL \<^verbatim>\<open>float\<close> is modelled by a real number, so every operation is
  exact: rounding of the GPU's floating-point unit is outside the model, except for
  the dither hash, which is embedded over an arbitrary arithmetic. Vectors are tuples
  of their components.
\<close>

type_synonym vec2 = "real \<times> real"
type_synonym vec3 = "real \<times> real \<times> real"
type_synonym vec4 = "real \<times> real \<times> real \<times> real"

subsection \<open>GLSL built-ins used by the shader\<close>

definition fract :: "real \<Rightarrow> real" where
  "fract x = x - real_of_int \<lfloor>x\<rfloor>"

definition dot :: "vec2 \<Rightarrow> vec2 \<Rightarrow> real" where
  "dot p q = fst p * fst q + snd p * snd q"

definition mix :: "real \<Rightarrow> real \<Rightarrow> real \<Rightarrow> real" where
  "mix x y a = x * (1 - a) + y * a"

definition clamp :: "real \<Rightarrow> real \<Rightarrow> real \<Rightarrow> real" where
  "clamp x lo hi = min (max x lo) hi"

definition smoothstep :: "real \<Rightarrow> real \<Rightarrow> real \<Rightarrow> real" where
  "smoothstep edge0 edge1 x =
     (let t = clamp ((x - edge0) / (edge1 - edge0)) 0 1
      in t * t * (3 - 2 * t))"

definition vec2_length :: "vec2 \<Rightarrow> real" where
  "vec2_length p = sqrt (fst p * fst p + snd p * snd p)"

definition vec2_add :: "vec2 \<Rightarrow> vec2 \<Rightarrow> vec2" where
  "vec2_add p q = (fst p + fst q, snd p + snd q)"

definition vec2_sub :: "vec2 \<Rightarrow> vec2 \<Rightarrow> vec2" where
  "vec2_sub p q = (fst p - fst q, snd p - snd q)"

definition vec2_scale :: "vec2 \<Rightarrow> real \<Rightarrow> vec2" where
  "vec2_scale p k = (fst p * k, snd p * k)"

definition vec2_div :: "vec2 \<Rightarrow> vec2 \<Rightarrow> vec2" where
  "vec2_div p q = (fst p / fst q, snd p / snd q)"

definition vec2_floor :: "vec2 \<Rightarrow> vec2" where
  "vec2_floor p = (real_of_int \<lfloor>fst p\<rfloor>, real_of_int \<lfloor>snd p\<rfloor>)"

definition vec2_fract :: "vec2 \<Rightarrow> vec2" where
  "vec2_fract p = (fract (fst p), fract (snd p))"

definition vec3_mix :: "vec3 \<Rightarrow> vec3 \<Rightarrow> real \<Rightarrow> vec3" where
  "vec3_mix c1 c2 a =
     (case c1 of (r1, g1, b1) \<Rightarrow> case c2 of (r2, g2, b2) \<Rightarrow>
        (mix r1 r2 a, mix g1 g2 a, mix b1 b2 a))"

definition vec3_scale :: "vec3 \<Rightarrow> real \<Rightarrow> vec3" where
  "vec3_scale c k = (case c of (r, g, b) \<Rightarrow> (r * k, g * k, b * k))"

subsection \<open>Noise functions\<close>

definition noise :: "vec2 \<Rightarrow> real" where
  "noise p = fract (sin (dot p (12.9898, 78.233)) * 43758.5453)"

definition smoothNoise :: "vec2 \<Rightarrow> real" where
  "smoothNoise p =
     (let i = vec2_floor p;
          f = vec2_fract p;
          f = (fst f * fst f * (3 - 2 * fst f), snd f * snd f * (3 - 2 * snd f));
          a = noise i;
          b = noise (vec2_add i (1, 0));
          c = noise (vec2_add i (0, 1));
          d = noise (vec2_add i (1, 1))
      in mix (mix a b (fst f)) (mix c d (fst f)) (snd f))"

text \<open>
  The octave loop of \<^verbatim>\<open>fbm\<close>: \<open>i\<close> is the loop counter, \<open>value\<close>, \<open>amplitude\<close> and
  \<open>frequency\<close> are the three locals the body updates.
\<close>

function fbm_loop :: "vec2 \<Rightarrow> nat \<Rightarrow> real \<Rightarrow> real \<Rightarrow> real \<Rightarrow> real" where
  "fbm_loop p i val amplitude frequency =
     (if i < 5
      then fbm_loop p (i + 1)
             (val + amplitude * smoothNoise (vec2_scale p frequency))
             (amplitude * 0.5)
             (frequency * 2)
      else val)"
  by pat_completeness auto
termination
  by (relation "measure (\<lambda>(p, i, val, amplitude, frequency). 5 - i)") auto

definition fbm :: "vec2 \<Rightarrow> real" where
  "fbm p = fbm_loop p 0 0 0.5 1"

subsection \<open>The dither hash, over the arithmetic of the GPU\<close>

text \<open>
  \<^verbatim>\<open>dither\<close> is applied to pixel coordinates, which run up to the size of the window,
  and multiplies their dot product by \<open>43758.5453\<close>: its value depends on how the GPU
  rounds at almost every pixel (a 32-bit float has no fractional bits left above
  \<open>2^24\<close>). It is therefore embedded over an arbitrary arithmetic rather than over the
  reals: \<open>f_lit\<close> is the value of a decimal literal of the shader text, \<open>f_add\<close> and
  \<open>f_mul\<close> are the operators \<^verbatim>\<open>+\<close> and \<^verbatim>\<open>*\<close>, and \<open>f_fract\<close>, \<open>f_dot\<close> and \<open>f_sin\<close>
  are the built-ins \<^verbatim>\<open>fract\<close>, \<^verbatim>\<open>dot\<close> and \<^verbatim>\<open>sin\<close>, as the GPU implements them.
\<close>

record 'a arith =
  f_lit :: "real \<Rightarrow> 'a"
  f_add :: "'a \<Rightarrow> 'a \<Rightarrow> 'a"
  f_mul :: "'a \<Rightarrow> 'a \<Rightarrow> 'a"
  f_fract :: "'a \<Rightarrow> 'a"
  f_dot :: "'a \<times> 'a \<Rightarrow> 'a \<times> 'a \<Rightarrow> 'a"
  f_sin :: "'a \<Rightarrow> 'a"

text \<open>Lines 60--62.\<close>

definition dither :: "'a arith \<Rightarrow> 'a \<times> 'a \<Rightarrow> 'a" where
  "dither A p =
     f_fract A (f_mul A (f_dot A p (f_lit A 0.129898, f_lit A 0.78233)) (f_lit A 43758.5453))"

text \<open>
  Lines 73 and 74: \<^verbatim>\<open>float ditherValue = dither(gl_FragCoord.xy) * 0.08\<close> and
  \<^verbatim>\<open>pattern += ditherValue\<close>, as a function of the value \<^verbatim>\<open>pattern\<close> holds before.
\<close>

definition main_add_dither :: "'a arith \<Rightarrow> 'a \<Rightarrow> 'a \<times> 'a \<Rightarrow> 'a" where
  "main_add_dither A pattern fragCoord_xy =
     (let ditherValue = f_mul A (dither A fragCoord_xy) (f_lit A 0.08);
          pattern = f_add A pattern ditherValue
      in pattern)"

text \<open>
  Two arithmetics. \<open>exact\<close> computes in the reals, as the rest of this model does.
  \<open>rounded rnd\<close> rounds every literal and every result with \<open>rnd\<close>; the 32-bit
  arithmetic of a GPU is of this kind, with \<open>rnd\<close> rounding to 24 significant bits.
\<close>

definition exact :: "real arith" where
  "exact = \<lparr>f_lit = (\<lambda>x. x), f_add = (\<lambda>x y. x + y), f_mul = (\<lambda>x y. x * y),
            f_fract = fract, f_dot = dot, f_sin = sin\<rparr>"

definition rounded :: "(real \<Rightarrow> real) \<Rightarrow> real arith" where
  "rounded rnd =
     \<lparr>f_lit = rnd,
      f_add = (\<lambda>x y. rnd (x + y)),
      f_mul = (\<lambda>x y. rnd (x * y)),
      f_fract = (\<lambda>x. rnd (fract x)),
      f_dot = (\<lambda>p q. rnd (rnd (fst p * fst q) + rnd (snd p * snd q))),
      f_sin = (\<lambda>x. rnd (sin x))\<rparr>"

subsection \<open>The fragment program \<^verbatim>\<open>main\<close>\<close>

text \<open>
  The two uniforms of the program. The built-in input \<^verbatim>\<open>gl_FragCoord\<close> is a \<open>vec4\<close>;
  \<^verbatim>\<open>gl_FragCoord.xy\<close> is its first two components.
\<close>

record uniforms =
  u_time :: real
  u_resolution :: vec2

definition xy :: "vec4 \<Rightarrow> vec2" where
  "xy v = (case v of (x, y, z, w) \<Rightarrow> (x, y))"

text \<open>
  Line 65: \<^verbatim>\<open>vec2 uv = gl_FragCoord.xy / u_resolution\<close>. The division is the total
  division of the reals (\<open>x / 0 = 0\<close>); GLSL leaves a division by zero undefined, and
  nothing proved below depends on the value of \<open>uv\<close> at a zero resolution.
\<close>

definition main_uv :: "uniforms \<Rightarrow> vec4 \<Rightarrow> vec2" where
  "main_uv u gl_FragCoord = vec2_div (xy gl_FragCoord) (u_resolution u)"

text \<open>Lines 68 and 69: the two fractal fields, as functions of \<^verbatim>\<open>u_time\<close> and \<^verbatim>\<open>p\<close>.\<close>

definition wave1 :: "real \<Rightarrow> vec2 \<Rightarrow> real" where
  "wave1 time p = fbm (vec2_add p (time * 0.05, time * 0.03))"

definition wave2 :: "real \<Rightarrow> vec2 \<Rightarrow> real" where
  "wave2 time p = fbm (vec2_sub (vec2_scale p 1.5) (time * 0.04, time * 0.02))"

text \<open>Line 71: the local \<^verbatim>\<open>pattern\<close> as first assigned, the 60/40 blend.\<close>

definition main_blend :: "uniforms \<Rightarrow> vec4 \<Rightarrow> real" where
  "main_blend u gl_FragCoord =
     (let uv = main_uv u gl_FragCoord;
          p = vec2_scale uv 3
      in wave1 (u_time u) p * 0.6 + wave2 (u_time u) p * 0.4)"

text \<open>
  Lines 73 and 74 in \<^verbatim>\<open>main\<close>: \<^verbatim>\<open>pattern\<close> after \<^verbatim>\<open>pattern += ditherValue\<close>, in the
  exact arithmetic.
\<close>

definition main_pattern :: "uniforms \<Rightarrow> vec4 \<Rightarrow> real" where
  "main_pattern u gl_FragCoord =
     (let pattern = main_blend u gl_FragCoord
      in main_add_dither exact pattern (xy gl_FragCoord))"

text \<open>Lines 76 to 88: the colour ramp, the vignette and the output \<^verbatim>\<open>gl_FragColor\<close>.\<close>

definition main :: "uniforms \<Rightarrow> vec4 \<Rightarrow> vec4" where
  "main u gl_FragCoord =
     (let uv = main_uv u gl_FragCoord;
          pattern = main_pattern u gl_FragCoord;
          deepBlue = (0.05, 0.08, 0.15);
          midBlue = (0.08, 0.12, 0.22);
          steelGray = (0.15, 0.18, 0.24);
          accentCyan = (0.15, 0.25, 0.35);
          color = vec3_mix deepBlue midBlue pattern;
          color = vec3_mix color steelGray (smoothstep 0.4 0.8 pattern);
          color = vec3_mix color accentCyan (smoothstep 0.7 1.0 pattern * 0.3);
          vignette = 1 - vec2_length (vec2_sub uv (0.5, 0.5)) * 0.7;
          color = vec3_scale color vignette
      in case color of (r, g, b) \<Rightarrow> (r, g, b, 1))"

definition alpha :: "vec4 \<Rightarrow> real" where
  "alpha v = (case v of (r, g, b, a) \<Rightarrow> a)"

subsection \<open>\<^verbatim>\<open>main\<close> statement by statement\<close>

text \<open>
  \<^verbatim>\<open>main\<close> is a \<^verbatim>\<open>void\<close> function: it reads the built-in input and the uniforms,
  assigns its local variables one after the other and writes the built-in output
  \<^verbatim>\<open>gl_FragColor\<close>. The record \<open>invocation\<close> holds all of them: the input
  (\<open>sh_FragCoord\<close>), the uniforms, the output (\<open>sh_FragColor\<close>) and one field for each
  local variable of lines 65--86. Nothing is assumed about what the fields of the
  locals and of the output hold when an invocation starts: they are whatever an
  earlier invocation (another pixel, an earlier frame) left behind. \<open>main_exec\<close>
  executes lines 65--88 on such a state, one assignment per line of the source.
\<close>

record invocation =
  sh_FragCoord :: vec4
  sh_uniforms :: uniforms
  sh_FragColor :: vec4
  l_uv :: vec2
  l_p :: vec2
  l_wave1 :: real
  l_wave2 :: real
  l_pattern :: real
  l_ditherValue :: real
  l_deepBlue :: vec3
  l_midBlue :: vec3
  l_steelGray :: vec3
  l_accentCyan :: vec3
  l_color :: vec3
  l_vignette :: real

definition main_exec :: "invocation \<Rightarrow> invocation" where
  "main_exec s =
     (let s = s\<lparr>l_uv := vec2_div (xy (sh_FragCoord s)) (u_resolution (sh_uniforms s))\<rparr>;
          s = s\<lparr>l_p := vec2_scale (l_uv s) 3\<rparr>;
          s = s\<lparr>l_wave1 := fbm (vec2_add (l_p s)
                  (u_time (sh_uniforms s) * 0.05, u_time (sh_uniforms s) * 0.03))\<rparr>;
          s = s\<lparr>l_wave2 := fbm (vec2_sub (vec2_scale (l_p s) 1.5)
                  (u_time (sh_uniforms s) * 0.04, u_time (sh_uniforms s) * 0.02))\<rparr>;
          s = s\<lparr>l_pattern := l_wave1 s * 0.6 + l_wave2 s * 0.4\<rparr>;
          s = s\<lparr>l_ditherValue := dither exact (xy (sh_FragCoord s)) * 0.08\<rparr>;
          s = s\<lparr>l_pattern := l_pattern s + l_ditherValue s\<rparr>;
          s = s\<lparr>l_deepBlue := (0.05, 0.08, 0.15)\<rparr>;
          s = s\<lparr>l_midBlue := (0.08, 0.12, 0.22)\<rparr>;
          s = s\<lparr>l_steelGray := (0.15, 0.18, 0.24)\<rparr>;
          s = s\<lparr>l_accentCyan := (0.15, 0.25, 0.35)\<rparr>;
          s = s\<lparr>l_color := vec3_mix (l_deepBlue s) (l_midBlue s) (l_pattern s)\<rparr>;
          s = s\<lparr>l_color := vec3_mix (l_color s) (l_steelGray s)
                  (smoothstep 0.4 0.8 (l_pattern s))\<rparr>;
          s = s\<lparr>l_color := vec3_mix (l_color s) (l_accentCyan s)
                  (smoothstep 0.7 1.0 (l_pattern s) * 0.3)\<rparr>;
          s = s\<lparr>l_vignette := 1 - vec2_length (vec2_sub (l_uv s) (0.5, 0.5)) * 0.7\<rparr>;
          s = s\<lparr>l_color := vec3_scale (l_color s) (l_vignette s)\<rparr>;
          s = s\<lparr>sh_FragColor := (case l_color s of (r, g, b) \<Rightarrow> (r, g, b, 1))\<rparr>
      in s)"

text \<open>
  A state in which an invocation can start: the given input and uniforms, the colour
  \<open>old\<close> an earlier invocation wrote, and the value \<open>junk\<close> in every scalar local and
  component.
\<close>

definition invocation_start :: "vec4 \<Rightarrow> uniforms \<Rightarrow> vec4 \<Rightarrow> real \<Rightarrow> invocation" where
  "invocation_start fragCoord u old junk =
     \<lparr>sh_FragCoord = fragCoord, sh_uniforms = u, sh_FragColor = old,
      l_uv = (junk, junk), l_p = (junk, junk), l_wave1 = junk, l_wave2 = junk,
      l_pattern = junk, l_ditherValue = junk,
      l_deepBlue = (junk, junk, junk), l_midBlue = (junk, junk, junk),
      l_steelGray = (junk, junk, junk), l_accentCyan = (junk, junk, junk),
      l_color = (junk, junk, junk), l_vignette = junk\<rparr>"

subsection \<open>The specification's reading of the noise functions\<close>

text \<open>
  The specification describes \<^verbatim>\<open>smoothNoise\<close> as a bilinear interpolation with eased
  weights and \<^verbatim>\<open>fbm\<close> as a sum of octaves. The following definitions are written
  from those words, to be compared with the functions above: the smoothstep
  polynomial, the bilinear interpolation of four corner values, and the amplitude
  and frequency of the \<open>i\<close>-th octave (start \<open>0.5\<close> and \<open>1\<close>, halving and doubling).
\<close>

definition spec_ease :: "real \<Rightarrow> real" where
  "spec_ease t = t * t * (3 - 2 * t)"

definition spec_bilinear :: "real \<Rightarrow> real \<Rightarrow> real \<Rightarrow> real \<Rightarrow> real \<Rightarrow> real \<Rightarrow> real" where
  "spec_bilinear v00 v10 v01 v11 wx wy =
     v00 * (1 - wx) * (1 - wy) + v10 * wx * (1 - wy) + v01 * (1 - wx) * wy + v11 * wx * wy"

primrec spec_amplitude :: "nat \<Rightarrow> real" where
  "spec_amplitude 0 = 0.5"
| "spec_amplitude (Suc i) = spec_amplitude i / 2"

primrec spec_frequency :: "nat \<Rightarrow> real" where
  "spec_frequency 0 = 1"
| "spec_frequency (Suc i) = 2 * spec_frequency i"

section \<open>The page script: capability probe, setup, resize and render loop\<close>

text \<open>
  The immediately-invoked function of \<^verbatim>\<open>src/main.js\<close> (lines 2--171) talks to the
  browser: the document, the window, the console and the WebGL context. The model
  keeps what the script writes in a record \<open>page\<close> and takes what the browser answers
  from a record \<open>browser\<close>. Every call on the WebGL context is appended to \<open>gl_calls\<close>,
  so that "this call was never made" is a statement about that list.
\<close>

datatype shader_type = VERTEX_SHADER | FRAGMENT_SHADER

datatype draw_mode = TRIANGLE_STRIP

datatype gl_call =
    CreateShader shader_type
  | ShaderSource shader_type
  | CompileShader shader_type
  | GetShaderParameter shader_type
  | GetShaderInfoLog shader_type
  | DeleteShader shader_type
  | CreateProgram
  | AttachShader shader_type
  | LinkProgram
  | GetProgramParameter
  | GetProgramInfoLog
  | UseProgram
  | CreateBuffer
  | BindBuffer
  | BufferData "int list"
  | GetAttribLocation string
  | EnableVertexAttribArray
  | VertexAttribPointer nat
  | GetUniformLocation string
  | Viewport int int int int
  | Uniform2f string real real
  | Uniform1f string real
  | DrawArrays draw_mode nat nat

text \<open>
  What the browser answers: whether \<^verbatim>\<open>canvas.getContext(name)\<close> returns a context,
  the compile status of each stage, the link status, and the successive readings of
  \<^verbatim>\<open>Date.now()\<close> (the \<open>n\<close>-th call returns \<open>Date_now n\<close>).
\<close>

record browser =
  getContext :: "string \<Rightarrow> bool"
  COMPILE_STATUS :: "shader_type \<Rightarrow> bool"
  LINK_STATUS :: bool
  Date_now :: "nat \<Rightarrow> int"

record page =
  fallback_classList :: "string list"
  canvas_display :: string
  canvas_width :: int
  canvas_height :: int
  innerWidth :: int
  innerHeight :: int
  console :: "string list"
  gl_calls :: "gl_call list"
  gl_viewport :: "int \<times> int \<times> int \<times> int"
  gl_uniforms :: uniforms
  resize_listener :: bool
  render_requested :: bool
  startTime :: int
  clock_reads :: nat

text \<open>
  The page as the script finds it: the markup decides the classes of the fallback
  element and the display style of the canvas, the window has some size, a canvas
  is 300 by 150 until resized, and nothing has been called or registered yet.
\<close>

definition page_load :: "string list \<Rightarrow> string \<Rightarrow> int \<Rightarrow> int \<Rightarrow> page" where
  "page_load classes display w h =
     \<lparr>fallback_classList = classes, canvas_display = display,
      canvas_width = 300, canvas_height = 150,
      innerWidth = w, innerHeight = h,
      console = [], gl_calls = [],
      gl_viewport = (0, 0, 300, 150),
      gl_uniforms = \<lparr>u_time = 0, u_resolution = (0, 0)\<rparr>,
      resize_listener = False, render_requested = False,
      startTime = 0, clock_reads = 0\<rparr>"

subsection \<open>Browser operations\<close>

definition gl :: "gl_call list \<Rightarrow> page \<Rightarrow> page" where
  "gl cs s = s\<lparr>gl_calls := gl_calls s @ cs\<rparr>"

definition console_log :: "string \<Rightarrow> page \<Rightarrow> page" where
  "console_log msg s = s\<lparr>console := console s @ [msg]\<rparr>"

text \<open>\<^verbatim>\<open>classList.add\<close>: a token list without duplicates.\<close>

definition classList_add :: "string \<Rightarrow> page \<Rightarrow> page" where
  "classList_add c s =
     (if c \<in> set (fallback_classList s) then s
      else s\<lparr>fallback_classList := fallback_classList s @ [c]\<rparr>)"

definition gl_viewport_call :: "int \<Rightarrow> int \<Rightarrow> int \<Rightarrow> int \<Rightarrow> page \<Rightarrow> page" where
  "gl_viewport_call x y w h s = gl [Viewport x y w h] (s\<lparr>gl_viewport := (x, y, w, h)\<rparr>)"

definition gl_uniform2f :: "string \<Rightarrow> real \<Rightarrow> real \<Rightarrow> page \<Rightarrow> page" where
  "gl_uniform2f name x y s =
     gl [Uniform2f name x y]
       (if name = ''u_resolution''
        then s\<lparr>gl_uniforms := (gl_uniforms s)\<lparr>u_resolution := (x, y)\<rparr>\<rparr> else s)"

definition gl_uniform1f :: "string \<Rightarrow> real \<Rightarrow> page \<Rightarrow> page" where
  "gl_uniform1f name x s =
     gl [Uniform1f name x]
       (if name = ''u_time''
        then s\<lparr>gl_uniforms := (gl_uniforms s)\<lparr>u_time := x\<rparr>\<rparr> else s)"

definition date_now :: "browser \<Rightarrow> page \<Rightarrow> int \<times> page" where
  "date_now b s = (Date_now b (clock_reads s), s\<lparr>clock_reads := clock_reads s + 1\<rparr>)"

subsection \<open>The script\<close>

text \<open>The three identical fallback sequences (lines 11--12, 112--113, 124--125).\<close>

definition use_fallback :: "page \<Rightarrow> page" where
  "use_fallback s =
     (let s = classList_add ''active'' s;
          s = s\<lparr>canvas_display := ''none''\<rparr>
      in s)"

text \<open>
  \<^verbatim>\<open>compileShader\<close> (lines 93--104). The first component of the result is
  \<open>True\<close> when a shader object is returned and \<open>False\<close> when \<^verbatim>\<open>null\<close> is.
\<close>

definition compileShader :: "browser \<Rightarrow> shader_type \<Rightarrow> page \<Rightarrow> bool \<times> page" where
  "compileShader b ty s =
     (let s = gl [CreateShader ty] s;
          s = gl [ShaderSource ty] s;
          s = gl [CompileShader ty] s;
          s = gl [GetShaderParameter ty] s
      in if \<not> COMPILE_STATUS b ty then
           (let s = gl [GetShaderInfoLog ty] s;
                s = console_log ''Shader compilation error:'' s;
                s = gl [DeleteShader ty] s
            in (False, s))
         else (True, s))"

text \<open>\<^verbatim>\<open>resize\<close> (lines 152--157).\<close>

definition resize :: "page \<Rightarrow> page" where
  "resize s =
     (let s = s\<lparr>canvas_width := innerWidth s\<rparr>;
          s = s\<lparr>canvas_height := innerHeight s\<rparr>;
          s = gl_viewport_call 0 0 (canvas_width s) (canvas_height s) s;
          s = gl_uniform2f ''u_resolution''
                (real_of_int (canvas_width s)) (real_of_int (canvas_height s)) s
      in s)"

text \<open>
  \<^verbatim>\<open>render\<close> (lines 164--169). \<^verbatim>\<open>requestAnimationFrame(render)\<close> leaves a request
  that the browser serves at the next display refresh.
\<close>

definition render :: "browser \<Rightarrow> page \<Rightarrow> page" where
  "render b s =
     (let (now, s) = date_now b s;
          time = real_of_int (now - startTime s) * 0.001;
          s = gl_uniform1f ''u_time'' time s;
          s = gl [DrawArrays TRIANGLE_STRIP 0 4] s;
          s = s\<lparr>render_requested := True\<rparr>
      in s)"

text \<open>The body of the immediately-invoked function (lines 3--170).\<close>

definition iife :: "browser \<Rightarrow> page \<Rightarrow> page" where
  "iife b s =
     (if \<not> (getContext b ''webgl'' \<or> getContext b ''experimental-webgl'') then
        (let s = console_log ''WebGL not supported, using fallback'' s
         in use_fallback s)
      else
        (let (vertexShader, s) = compileShader b VERTEX_SHADER s;
             (fragmentShader, s) = compileShader b FRAGMENT_SHADER s
         in if \<not> vertexShader \<or> \<not> fragmentShader then
              (let s = console_log ''Shader compilation failed, using fallback'' s
               in use_fallback s)
            else
              (let s = gl [CreateProgram] s;
                   s = gl [AttachShader VERTEX_SHADER] s;
                   s = gl [AttachShader FRAGMENT_SHADER] s;
                   s = gl [LinkProgram] s;
                   s = gl [GetProgramParameter] s
               in if \<not> LINK_STATUS b then
                    (let s = gl [GetProgramInfoLog] s;
                         s = console_log ''Program linking error:'' s
                     in use_fallback s)
                  else
                    (let s = gl [UseProgram] s;
                         s = gl [CreateBuffer] s;
                         s = gl [BindBuffer] s;
                         s = gl [BufferData [-1, -1, 1, -1, -1, 1, 1, 1]] s;
                         s = gl [GetAttribLocation ''a_position''] s;
                         s = gl [EnableVertexAttribArray] s;
                         s = gl [VertexAttribPointer 2] s;
                         s = gl [GetUniformLocation ''u_time''] s;
                         s = gl [GetUniformLocation ''u_resolution''] s;
                         s = resize s;
                         s = s\<lparr>resize_listener := True\<rparr>;
                         (now, s) = date_now b s;
                         s = s\<lparr>startTime := now\<rparr>
                     in render b s))))"

subsection \<open>After setup: what the browser dispatches\<close>

text \<open>
  A window resize changes the window's inner size and calls the registered listener,
  if any; a display refresh serves a pending animation-frame request, if any. The
  render loop never ends by itself, so a run is the setup followed by any finite
  list of such events.
\<close>

datatype event = WindowResize int int | AnimationFrame

fun dispatch :: "browser \<Rightarrow> page \<Rightarrow> event \<Rightarrow> page" where
  "dispatch b s (WindowResize w h) =
     (let s = s\<lparr>innerWidth := w, innerHeight := h\<rparr>
      in if resize_listener s then resize s else s)"
| "dispatch b s AnimationFrame =
     (if render_requested s then render b (s\<lparr>render_requested := False\<rparr>) else s)"

definition run :: "browser \<Rightarrow> page \<Rightarrow> event list \<Rightarrow> page" where
  "run b s evs = foldl (dispatch b) (iife b s) evs"

section \<open>Properties of the shader\<close>

lemma fract_range: "0 \<le> fract x \<and> fract x < 1"
  unfolding fract_def by linarith

lemma fbm_loop_sum:
  "i \<le> 5 \<Longrightarrow>
   fbm_loop p i v (spec_amplitude i) (spec_frequency i) =
     v + (\<Sum>k = i..<5. spec_amplitude k * smoothNoise (vec2_scale p (spec_frequency k)))"
proof (induction "5 - i" arbitrary: i v)
  case 0
  then have "i = 5" by simp
  then show ?case by (simp add: fbm_loop.simps [of p 5])
next
  case (Suc n)
  then have lt: "i < 5" and le: "Suc i \<le> 5" and n: "n = 5 - Suc i" by simp_all
  have "fbm_loop p i v (spec_amplitude i) (spec_frequency i) =
        fbm_loop p (Suc i) (v + spec_amplitude i * smoothNoise (vec2_scale p (spec_frequency i)))
          (spec_amplitude (Suc i)) (spec_frequency (Suc i))"
    using lt by (subst fbm_loop.simps) (simp add: mult.commute)
  also have "\<dots> = v + spec_amplitude i * smoothNoise (vec2_scale p (spec_frequency i)) +
        (\<Sum>k = Suc i..<5. spec_amplitude k * smoothNoise (vec2_scale p (spec_frequency k)))"
    using Suc.hyps(1) [OF n le] .
  also have "\<dots> = v + (\<Sum>k = i..<5. spec_amplitude k * smoothNoise (vec2_scale p (spec_frequency k)))"
    using lt by (simp add: sum.atLeast_Suc_lessThan)
  finally show ?case .
qed

lemma fbm_octaves:
  "fbm p = (\<Sum>k = 0..<5. spec_amplitude k * smoothNoise (vec2_scale p (spec_frequency k)))"
  using fbm_loop_sum [of 0 p 0] by (simp add: fbm_def)

lemma spec_amplitude_closed: "spec_amplitude i = 0.5 / 2 ^ i"
  by (induction i) simp_all

lemma spec_frequency_closed: "spec_frequency i = 2 ^ i"
  by (induction i) simp_all

text \<open>
  Claim C4. For every point \<open>p\<close>, \<^verbatim>\<open>fbm(p)\<close> is the sum over the octaves \<open>i = 0..4\<close> of
  \<open>amplitude i * smoothNoise (p * frequency i)\<close>, where the amplitude starts at \<open>0.5\<close>
  and halves, and the frequency starts at \<open>1\<close> and doubles, at each successive octave:
  exactly five octaves.
\<close>

theorem fbm_five_octaves:
  "fbm p = (\<Sum>i = 0..4. spec_amplitude i * smoothNoise (vec2_scale p (spec_frequency i)))
   \<and> spec_amplitude 0 = 0.5 \<and> spec_frequency 0 = 1
   \<and> (\<forall>i. spec_amplitude (Suc i) = spec_amplitude i / 2)
   \<and> (\<forall>i. spec_frequency (Suc i) = 2 * spec_frequency i)
   \<and> card {0..4::nat} = 5
   \<and> fbm p = 0.5 * smoothNoise (vec2_scale p 1) + 0.25 * smoothNoise (vec2_scale p 2)
             + 0.125 * smoothNoise (vec2_scale p 4) + 0.0625 * smoothNoise (vec2_scale p 8)
             + 0.03125 * smoothNoise (vec2_scale p 16)"
proof -
  have "{0..<5::nat} = {0..4}" by auto
  then have a: "fbm p = (\<Sum>i = 0..4. spec_amplitude i * smoothNoise (vec2_scale p (spec_frequency i)))"
    using fbm_octaves [of p] by simp
  have b: "fbm p = 0.5 * smoothNoise (vec2_scale p 1) + 0.25 * smoothNoise (vec2_scale p 2)
             + 0.125 * smoothNoise (vec2_scale p 4) + 0.0625 * smoothNoise (vec2_scale p 8)
             + 0.03125 * smoothNoise (vec2_scale p 16)"
    unfolding fbm_octaves by (simp add: eval_nat_numeral)
  show ?thesis using a b by simp
qed

lemma spec_ease_range: "0 \<le> t \<Longrightarrow> t \<le> 1 \<Longrightarrow> 0 \<le> spec_ease t \<and> spec_ease t \<le> 1"
proof -
  assume t: "0 \<le> t" "t \<le> 1"
  have "1 - spec_ease t = (1 - t) * (1 - t) * (1 + 2 * t)"
    by (simp add: spec_ease_def algebra_simps)
  moreover have "0 \<le> (1 - t) * (1 - t) * (1 + 2 * t)" using t by simp
  moreover have "0 \<le> spec_ease t" using t by (simp add: spec_ease_def)
  ultimately show ?thesis by linarith
qed

lemma mix_range:
  assumes "0 \<le> a" "a < 1" "0 \<le> b" "b < 1" "0 \<le> w" "w \<le> 1"
  shows "0 \<le> mix a b w \<and> mix a b w < 1"
proof -
  have nonneg: "0 \<le> a * (1 - w) + b * w" using assms by simp
  have "1 - mix a b w = (1 - a) * (1 - w) + (1 - b) * w"
    by (simp add: mix_def algebra_simps)
  moreover have "0 < (1 - a) * (1 - w) + (1 - b) * w"
  proof (cases "w = 0")
    case True
    then show ?thesis using assms by simp
  next
    case False
    then have "0 < (1 - b) * w" using assms by simp
    moreover have "0 \<le> (1 - a) * (1 - w)" using assms by simp
    ultimately show ?thesis by linarith
  qed
  ultimately show ?thesis using nonneg by (simp add: mix_def)
qed

lemma noise_range: "0 \<le> noise p \<and> noise p < 1"
  by (simp add: noise_def fract_range)

lemma smoothNoise_mix:
  "smoothNoise p =
     mix (mix (noise (vec2_floor p)) (noise (vec2_add (vec2_floor p) (1, 0))) (spec_ease (fract (fst p))))
         (mix (noise (vec2_add (vec2_floor p) (0, 1))) (noise (vec2_add (vec2_floor p) (1, 1))) (spec_ease (fract (fst p))))
         (spec_ease (fract (snd p)))"
  by (simp add: smoothNoise_def Let_def vec2_fract_def spec_ease_def)

lemma smoothNoise_range: "0 \<le> smoothNoise p \<and> smoothNoise p < 1"
proof -
  have ex: "0 \<le> spec_ease (fract (fst p)) \<and> spec_ease (fract (fst p)) \<le> 1"
    using fract_range [of "fst p"] by (intro spec_ease_range) simp_all
  have ey: "0 \<le> spec_ease (fract (snd p)) \<and> spec_ease (fract (snd p)) \<le> 1"
    using fract_range [of "snd p"] by (intro spec_ease_range) simp_all
  let ?i = "vec2_floor p"
  have m1: "0 \<le> mix (noise ?i) (noise (vec2_add ?i (1, 0))) (spec_ease (fract (fst p)))
      \<and> mix (noise ?i) (noise (vec2_add ?i (1, 0))) (spec_ease (fract (fst p))) < 1"
    using ex noise_range by (intro mix_range) simp_all
  have m2: "0 \<le> mix (noise (vec2_add ?i (0, 1))) (noise (vec2_add ?i (1, 1))) (spec_ease (fract (fst p)))
      \<and> mix (noise (vec2_add ?i (0, 1))) (noise (vec2_add ?i (1, 1))) (spec_ease (fract (fst p))) < 1"
    using ex noise_range by (intro mix_range) simp_all
  show ?thesis
    unfolding smoothNoise_mix
    using m1 m2 ey by (intro mix_range) simp_all
qed

text \<open>
  Claim C5. For every point \<open>p\<close>, \<^verbatim>\<open>smoothNoise(p)\<close> is the bilinear interpolation of
  the hash values at the four corners \<open>i\<close>, \<open>i + (1,0)\<close>, \<open>i + (0,1)\<close>, \<open>i + (1,1)\<close> of the
  unit cell containing \<open>p\<close> (\<open>i = floor p\<close>), with weights given by the smoothstep
  polynomial \<open>t * t * (3 - 2 * t)\<close> of the fractional part of \<open>p\<close>.
\<close>

theorem smoothNoise_bilinear:
  "smoothNoise p =
     spec_bilinear (noise (vec2_floor p))
                   (noise (vec2_add (vec2_floor p) (1, 0)))
                   (noise (vec2_add (vec2_floor p) (0, 1)))
                   (noise (vec2_add (vec2_floor p) (1, 1)))
                   (spec_ease (fract (fst p))) (spec_ease (fract (snd p)))
   \<and> fst (vec2_floor p) \<le> fst p \<and> fst p < fst (vec2_floor p) + 1
   \<and> snd (vec2_floor p) \<le> snd p \<and> snd p < snd (vec2_floor p) + 1
   \<and> vec2_fract p = vec2_sub p (vec2_floor p)"
proof -
  have "smoothNoise p =
     spec_bilinear (noise (vec2_floor p))
                   (noise (vec2_add (vec2_floor p) (1, 0)))
                   (noise (vec2_add (vec2_floor p) (0, 1)))
                   (noise (vec2_add (vec2_floor p) (1, 1)))
                   (spec_ease (fract (fst p))) (spec_ease (fract (snd p)))"
    unfolding smoothNoise_mix by (simp add: mix_def spec_bilinear_def algebra_simps)
  moreover have "fst (vec2_floor p) \<le> fst p \<and> fst p < fst (vec2_floor p) + 1
     \<and> snd (vec2_floor p) \<le> snd p \<and> snd p < snd (vec2_floor p) + 1"
    unfolding vec2_floor_def by (simp; linarith)
  moreover have "vec2_fract p = vec2_sub p (vec2_floor p)"
    by (simp add: vec2_fract_def vec2_sub_def vec2_floor_def fract_def)
  ultimately show ?thesis by blast
qed

text \<open>
  Claim C9. For every point \<open>p\<close>, \<^verbatim>\<open>fbm(p)\<close> lies in the closed interval
  \<open>[0, 0.96875]\<close>: every value of \<^verbatim>\<open>noise\<close> and of \<^verbatim>\<open>smoothNoise\<close> lies in
  \<open>[0, 1)\<close>, and the five octave amplitudes sum to \<open>0.96875\<close>.
\<close>

theorem fbm_range:
  "0 \<le> fbm p \<and> fbm p \<le> 0.96875
   \<and> 0 \<le> smoothNoise p \<and> smoothNoise p < 1
   \<and> 0 \<le> noise p \<and> noise p < 1
   \<and> (\<Sum>i = 0..4. spec_amplitude i) = 0.96875"
proof -
  have s: "\<And>q. 0 \<le> smoothNoise q \<and> smoothNoise q \<le> 1"
    using smoothNoise_range by (simp add: less_imp_le)
  have e: "fbm p = 1 / 2 * smoothNoise (vec2_scale p 1) + 1 / 4 * smoothNoise (vec2_scale p 2)
      + 1 / 8 * smoothNoise (vec2_scale p 4) + 1 / 16 * smoothNoise (vec2_scale p 8)
      + 1 / 32 * smoothNoise (vec2_scale p 16)"
    unfolding fbm_octaves by (simp add: eval_nat_numeral)
  have "0 \<le> fbm p \<and> fbm p \<le> 31 / 32"
    unfolding e
    using s [of "vec2_scale p 1"] s [of "vec2_scale p 2"] s [of "vec2_scale p 4"]
      s [of "vec2_scale p 8"] s [of "vec2_scale p 16"]
    by linarith
  then have b: "0 \<le> fbm p \<and> fbm p \<le> 0.96875" by simp
  have a: "(\<Sum>i = 0..4. spec_amplitude i) = 0.96875"
    by (simp add: eval_nat_numeral)
  show ?thesis using b a smoothNoise_range [of p] noise_range [of p] by blast
qed





lemma dither_exact: "dither exact p = fract (dot p (0.129898, 0.78233) * 43758.5453)"
  by (simp add: dither_def exact_def)






text \<open>
  In a rounding arithmetic whose values of magnitude \<open>2^24\<close> and more are integers
  (32-bit floats round so), the dither value is \<open>0\<close> at every pixel whose rounded
  product reaches \<open>2^24\<close>, whereas the exact value at such a pixel is in general not:
  what \<^verbatim>\<open>dither\<close> returns is a matter of the arithmetic, what it computes is not.
\<close>

lemma dither_rounded_large:
  assumes ints: "\<And>x. 2 ^ 24 \<le> \<bar>x\<bar> \<Longrightarrow> rnd x \<in> \<int>"
    and zero: "rnd 0 = 0"
    and large: "2 ^ 24 \<le> \<bar>f_dot (rounded rnd) p (rnd 0.129898, rnd 0.78233) * rnd 43758.5453\<bar>"
  shows "dither (rounded rnd) p = 0"
proof -
  let ?x = "f_dot (rounded rnd) p (rnd 0.129898, rnd 0.78233) * rnd 43758.5453"
  have "rnd ?x \<in> \<int>" using large by (rule ints)
  then have "fract (rnd ?x) = 0"
    by (auto simp add: fract_def elim!: Ints_cases)
  then have "rnd (fract (rnd ?x)) = 0" using zero by simp
  then show ?thesis by (simp add: dither_def rounded_def)
qed

lemma dither_exact_large:
  "dither exact (799.5, 599.5) = 0.7755019558
   \<and> 2 ^ 24 \<le> \<bar>f_dot exact (799.5, 599.5) (0.129898, 0.78233) * 43758.5453\<bar>"
proof -
  have d: "dot (799.5, 599.5) (0.129898, 0.78233) * 43758.5453 = (25067532.7755019558 :: real)"
    by (simp add: dot_def)
  have "\<lfloor>25067532.7755019558 :: real\<rfloor> = 25067532"
    by (simp add: floor_eq_iff)
  then have "dither exact (799.5, 599.5) = 0.7755019558"
    unfolding dither_exact d fract_def by simp
  moreover have "2 ^ 24 \<le> \<bar>f_dot exact (799.5, 599.5) (0.129898, 0.78233) * 43758.5453\<bar>"
    by (simp add: exact_def dot_def)
  ultimately show ?thesis by blast
qed


text \<open>
  Claim C8. At elapsed time \<open>0\<close> the two fractal fields are sampled at their unshifted
  base coordinates: \<open>wave1 = fbm (p + (0,0)) = fbm p\<close> and
  \<open>wave2 = fbm (p * 1.5 - (0,0)) = fbm (p * 1.5)\<close>, so the blend of \<^verbatim>\<open>main\<close> at time
  \<open>0\<close> has no phase offset.
\<close>

theorem waves_at_time_zero:
  "wave1 0 p = fbm (vec2_add p (0, 0)) \<and> wave1 0 p = fbm p
   \<and> wave2 0 p = fbm (vec2_sub (vec2_scale p 1.5) (0, 0)) \<and> wave2 0 p = fbm (vec2_scale p 1.5)
   \<and> main_blend (u\<lparr>u_time := 0\<rparr>) gl_FragCoord =
       fbm (vec2_scale (main_uv u gl_FragCoord) 3) * 0.6
       + fbm (vec2_scale (vec2_scale (main_uv u gl_FragCoord) 3) 1.5) * 0.4"
  by (simp add: wave1_def wave2_def vec2_add_def vec2_sub_def main_blend_def main_uv_def Let_def)

text \<open>
  Claim C10. For every pixel coordinate, elapsed time and resolution, the alpha
  component of the output colour \<^verbatim>\<open>gl_FragColor\<close> is exactly \<open>1\<close>.
\<close>

theorem fragment_alpha_opaque: "alpha (main u gl_FragCoord) = 1"
  by (simp add: main_def alpha_def Let_def split: prod.splits)

lemma main_exec_colour:
  "sh_FragColor (main_exec s) = main (sh_uniforms s) (sh_FragCoord s)"
  by (simp add: main_exec_def main_def main_uv_def main_pattern_def main_blend_def
      main_add_dither_def exact_def wave1_def wave2_def Let_def)

lemma main_exec_inputs:
  "sh_FragCoord (main_exec s) = sh_FragCoord s" "sh_uniforms (main_exec s) = sh_uniforms s"
  by (simp_all add: main_exec_def Let_def)

lemma main_reads:
  "xy fc1 = xy fc2 \<Longrightarrow> u_time u1 = u_time u2 \<Longrightarrow> u_resolution u1 = u_resolution u2
   \<Longrightarrow> main u1 fc1 = main u2 fc2"
  by (simp add: main_def main_uv_def main_pattern_def main_blend_def)

text \<open>
  Claim C6. The fragment colour is a pure, deterministic function of the pixel
  coordinate and of the elapsed-time and resolution uniforms: it is the function
  \<open>main\<close> of them. Executed statement by statement on two states that agree on \<^verbatim>\<open>gl_FragCoord.xy\<close>, \<^verbatim>\<open>u_time\<close> and
  \<^verbatim>\<open>u_resolution\<close>, \<^verbatim>\<open>main\<close> writes the same colour, whatever the two states hold in
  the local variables, in the output left by an earlier invocation and in the other
  components of \<^verbatim>\<open>gl_FragCoord\<close>; it leaves its inputs as they are, so that
  evaluating it again on the state it has left gives the same colour once more.
\<close>

theorem main_exec_deterministic:
  assumes "xy (sh_FragCoord s1) = xy (sh_FragCoord s2)"
    and "u_time (sh_uniforms s1) = u_time (sh_uniforms s2)"
    and "u_resolution (sh_uniforms s1) = u_resolution (sh_uniforms s2)"
  shows "sh_FragColor (main_exec s1) = sh_FragColor (main_exec s2)
       \<and> sh_FragColor (main_exec s1) = main (sh_uniforms s1) (sh_FragCoord s1)
       \<and> sh_FragCoord (main_exec s1) = sh_FragCoord s1
       \<and> sh_uniforms (main_exec s1) = sh_uniforms s1
       \<and> sh_FragColor (main_exec (main_exec s1)) = sh_FragColor (main_exec s1)"
proof -
  have two: "sh_FragColor (main_exec s1) = sh_FragColor (main_exec s2)"
    unfolding main_exec_colour using assms by (rule main_reads)
  have again: "sh_FragColor (main_exec (main_exec s1)) = sh_FragColor (main_exec s1)"
    unfolding main_exec_colour main_exec_inputs ..
  show ?thesis using two again main_exec_inputs [of s1] main_exec_colour [of s1] by simp
qed

theorem main_exec_deterministic_witness:
  "xy (sh_FragCoord (invocation_start (0.5, 0.5, 0, 1)
         \<lparr>u_time = 2.5, u_resolution = (800, 600)\<rparr> (0, 0, 0, 0) 0))
     = xy (sh_FragCoord (invocation_start (0.5, 0.5, 0.25, 3)
         \<lparr>u_time = 2.5, u_resolution = (800, 600)\<rparr> (1, 0.5, 0.25, 1) 7))
   \<and> l_color (invocation_start (0.5, 0.5, 0, 1)
         \<lparr>u_time = 2.5, u_resolution = (800, 600)\<rparr> (0, 0, 0, 0) 0)
     \<noteq> l_color (invocation_start (0.5, 0.5, 0.25, 3)
         \<lparr>u_time = 2.5, u_resolution = (800, 600)\<rparr> (1, 0.5, 0.25, 1) 7)
   \<and> sh_FragColor (main_exec (invocation_start (0.5, 0.5, 0, 1)
         \<lparr>u_time = 2.5, u_resolution = (800, 600)\<rparr> (0, 0, 0, 0) 0))
     = sh_FragColor (main_exec (invocation_start (0.5, 0.5, 0.25, 3)
         \<lparr>u_time = 2.5, u_resolution = (800, 600)\<rparr> (1, 0.5, 0.25, 1) 7))"
  using main_exec_deterministic
    [of "invocation_start (0.5, 0.5, 0, 1) \<lparr>u_time = 2.5, u_resolution = (800, 600)\<rparr> (0, 0, 0, 0) 0"
        "invocation_start (0.5, 0.5, 0.25, 3) \<lparr>u_time = 2.5, u_resolution = (800, 600)\<rparr> (1, 0.5, 0.25, 1) 7"]
  by (simp add: invocation_start_def xy_def)

section \<open>Properties of the page script\<close>

lemma gl_fields [simp]:
  "gl_calls (gl cs s) = gl_calls s @ cs"
  "fallback_classList (gl cs s) = fallback_classList s"
  "canvas_display (gl cs s) = canvas_display s"
  "resize_listener (gl cs s) = resize_listener s"
  "render_requested (gl cs s) = render_requested s"
  by (simp_all add: gl_def)

lemma console_log_fields [simp]:
  "gl_calls (console_log m s) = gl_calls s"
  "fallback_classList (console_log m s) = fallback_classList s"
  "canvas_display (console_log m s) = canvas_display s"
  "resize_listener (console_log m s) = resize_listener s"
  "render_requested (console_log m s) = render_requested s"
  by (simp_all add: console_log_def)

lemma use_fallback_fields [simp]:
  "gl_calls (use_fallback s) = gl_calls s"
  "''active'' \<in> set (fallback_classList (use_fallback s))"
  "canvas_display (use_fallback s) = ''none''"
  "resize_listener (use_fallback s) = resize_listener s"
  "render_requested (use_fallback s) = render_requested s"
  by (simp_all add: use_fallback_def classList_add_def Let_def)

lemma compileShader_fields [simp]:
  "fallback_classList (snd (compileShader b ty s)) = fallback_classList s"
  "canvas_display (snd (compileShader b ty s)) = canvas_display s"
  "resize_listener (snd (compileShader b ty s)) = resize_listener s"
  "render_requested (snd (compileShader b ty s)) = render_requested s"
  "fst (compileShader b ty s) = COMPILE_STATUS b ty"
  by (simp_all add: compileShader_def Let_def)

lemma compileShader_calls:
  "gl_calls (snd (compileShader b ty s)) =
     gl_calls s @ [CreateShader ty, ShaderSource ty, CompileShader ty, GetShaderParameter ty]
       @ (if COMPILE_STATUS b ty then [] else [GetShaderInfoLog ty, DeleteShader ty])"
  by (simp add: compileShader_def Let_def)

text \<open>A page with no listener and no pending frame request is inert.\<close>

lemma dispatch_inert:
  assumes "\<not> resize_listener s" "\<not> render_requested s"
  shows "gl_calls (dispatch b s e) = gl_calls s
       \<and> fallback_classList (dispatch b s e) = fallback_classList s
       \<and> canvas_display (dispatch b s e) = canvas_display s
       \<and> \<not> resize_listener (dispatch b s e) \<and> \<not> render_requested (dispatch b s e)"
  using assms by (cases e) (simp_all add: Let_def)

lemma events_inert:
  assumes "\<not> resize_listener s" "\<not> render_requested s"
  shows "gl_calls (foldl (dispatch b) s evs) = gl_calls s
       \<and> fallback_classList (foldl (dispatch b) s evs) = fallback_classList s
       \<and> canvas_display (foldl (dispatch b) s evs) = canvas_display s
       \<and> \<not> resize_listener (foldl (dispatch b) s evs)
       \<and> \<not> render_requested (foldl (dispatch b) s evs)"
  using assms
proof (induction evs arbitrary: s)
  case Nil
  then show ?case by simp
next
  case (Cons e evs)
  have d: "\<not> resize_listener (dispatch b s e)" "\<not> render_requested (dispatch b s e)"
    using dispatch_inert [OF Cons.prems, of b e] by simp_all
  show ?case
    using Cons.IH [OF d] dispatch_inert [OF Cons.prems, of b e] by simp
qed

lemma iife_no_context:
  assumes "\<not> getContext b ''webgl''" "\<not> getContext b ''experimental-webgl''"
  shows "iife b s = use_fallback (console_log ''WebGL not supported, using fallback'' s)"
  using assms by (simp add: iife_def)

lemma iife_compile_failed:
  assumes "getContext b ''webgl'' \<or> getContext b ''experimental-webgl''"
    and "\<not> COMPILE_STATUS b VERTEX_SHADER \<or> \<not> COMPILE_STATUS b FRAGMENT_SHADER"
  shows "iife b s =
     use_fallback (console_log ''Shader compilation failed, using fallback''
       (snd (compileShader b FRAGMENT_SHADER (snd (compileShader b VERTEX_SHADER s)))))"
  using assms by (simp add: iife_def Let_def case_prod_beta)

lemma page_load_fields [simp]:
  "gl_calls (page_load classes display w h) = []"
  "\<not> resize_listener (page_load classes display w h)"
  "\<not> render_requested (page_load classes display w h)"
  by (simp_all add: page_load_def)

text \<open>
  Claim C1. If acquiring the drawing context fails (both the \<^verbatim>\<open>'webgl'\<close> and the
  \<^verbatim>\<open>'experimental-webgl'\<close> attempt return null), then the fallback element gets the
  class \<^verbatim>\<open>active\<close>, the canvas display style is \<^verbatim>\<open>none\<close>, and the script stops
  there: whatever events follow, no call is made on a WebGL context, so no shader is
  compiled, no program is linked and no draw call is ever issued.
\<close>

theorem no_context_fallback:
  assumes "\<not> getContext b ''webgl''" and "\<not> getContext b ''experimental-webgl''"
  shows "let s = run b (page_load classes display w h) evs in
           ''active'' \<in> set (fallback_classList s)
         \<and> canvas_display s = ''none''
         \<and> gl_calls s = []
         \<and> (\<forall>ty. CompileShader ty \<notin> set (gl_calls s))
         \<and> LinkProgram \<notin> set (gl_calls s)
         \<and> (\<forall>mode first n. DrawArrays mode first n \<notin> set (gl_calls s))
         \<and> \<not> resize_listener s \<and> \<not> render_requested s"
proof -
  let ?s0 = "iife b (page_load classes display w h)"
  have s0: "?s0 = use_fallback (console_log ''WebGL not supported, using fallback''
                     (page_load classes display w h))"
    using assms by (rule iife_no_context)
  have inert: "\<not> resize_listener ?s0" "\<not> render_requested ?s0"
    unfolding s0 by simp_all
  have "gl_calls ?s0 = []" "''active'' \<in> set (fallback_classList ?s0)" "canvas_display ?s0 = ''none''"
    unfolding s0 by simp_all
  then show ?thesis
    using events_inert [OF inert, of b evs] by (simp add: run_def)
qed

theorem no_context_fallback_witness:
  "\<not> getContext \<lparr>getContext = (\<lambda>name. False), COMPILE_STATUS = (\<lambda>ty. True),
        LINK_STATUS = True, Date_now = (\<lambda>n. 1000 + 16 * int n)\<rparr> ''webgl''
   \<and> \<not> getContext \<lparr>getContext = (\<lambda>name. False), COMPILE_STATUS = (\<lambda>ty. True),
        LINK_STATUS = True, Date_now = (\<lambda>n. 1000 + 16 * int n)\<rparr> ''experimental-webgl''
   \<and> (let s = run \<lparr>getContext = (\<lambda>name. False), COMPILE_STATUS = (\<lambda>ty. True),
                    LINK_STATUS = True, Date_now = (\<lambda>n. 1000 + 16 * int n)\<rparr>
                 (page_load [''fallback''] ''block'' 1024 768)
                 [AnimationFrame, WindowResize 800 600, AnimationFrame]
      in fallback_classList s = [''fallback'', ''active'']
       \<and> canvas_display s = ''none''
       \<and> gl_calls s = [])"
  using no_context_fallback [of "\<lparr>getContext = (\<lambda>name. False), COMPILE_STATUS = (\<lambda>ty. True),
        LINK_STATUS = True, Date_now = (\<lambda>n. 1000 + 16 * int n)\<rparr>"
      "[''fallback'']" "''block''" 1024 768 "[AnimationFrame, WindowResize 800 600, AnimationFrame]"]
  by (simp add: run_def iife_def use_fallback_def classList_add_def console_log_def
      page_load_def Let_def)

text \<open>
  Claim C2. If the vertex stage or the fragment stage fails to compile
  (\<^verbatim>\<open>compileShader\<close> returns null for it, which by \<open>compileShader_fields\<close> is the
  case exactly when the compile status of that stage is false), then
  \<^verbatim>\<open>linkProgram\<close> is never called, the fallback element is marked active and the
  canvas is hidden.
\<close>

theorem compile_failure_fallback:
  assumes "\<not> COMPILE_STATUS b VERTEX_SHADER \<or> \<not> COMPILE_STATUS b FRAGMENT_SHADER"
  shows "let s = run b (page_load classes display w h) evs in
           LinkProgram \<notin> set (gl_calls s)
         \<and> ''active'' \<in> set (fallback_classList s)
         \<and> canvas_display s = ''none''"
proof -
  let ?p = "page_load classes display w h"
  let ?s0 = "iife b ?p"
  have "\<not> resize_listener ?s0 \<and> \<not> render_requested ?s0 \<and> LinkProgram \<notin> set (gl_calls ?s0)
       \<and> ''active'' \<in> set (fallback_classList ?s0) \<and> canvas_display ?s0 = ''none''"
  proof (cases "getContext b ''webgl'' \<or> getContext b ''experimental-webgl''")
    case True
    show ?thesis
      unfolding iife_compile_failed [OF True assms]
      by (simp add: compileShader_calls)
  next
    case False
    then have "?s0 = use_fallback (console_log ''WebGL not supported, using fallback'' ?p)"
      by (simp add: iife_no_context)
    then show ?thesis by simp
  qed
  then show ?thesis
    using events_inert [of ?s0 b evs] by (simp add: run_def)
qed

theorem compile_failure_fallback_witness:
  "\<not> COMPILE_STATUS \<lparr>getContext = (\<lambda>name. name = ''webgl''),
        COMPILE_STATUS = (\<lambda>ty. ty = VERTEX_SHADER),
        LINK_STATUS = True, Date_now = (\<lambda>n. 1000 + 16 * int n)\<rparr> FRAGMENT_SHADER
   \<and> (let s = run \<lparr>getContext = (\<lambda>name. name = ''webgl''),
                    COMPILE_STATUS = (\<lambda>ty. ty = VERTEX_SHADER),
                    LINK_STATUS = True, Date_now = (\<lambda>n. 1000 + 16 * int n)\<rparr>
                 (page_load [] ''block'' 1024 768)
                 [AnimationFrame, WindowResize 800 600]
      in LinkProgram \<notin> set (gl_calls s)
       \<and> gl_calls s =
           [CreateShader VERTEX_SHADER, ShaderSource VERTEX_SHADER,
            CompileShader VERTEX_SHADER, GetShaderParameter VERTEX_SHADER,
            CreateShader FRAGMENT_SHADER, ShaderSource FRAGMENT_SHADER,
            CompileShader FRAGMENT_SHADER, GetShaderParameter FRAGMENT_SHADER,
            GetShaderInfoLog FRAGMENT_SHADER, DeleteShader FRAGMENT_SHADER]
       \<and> fallback_classList s = [''active'']
       \<and> canvas_display s = ''none'')"
  using compile_failure_fallback [of "\<lparr>getContext = (\<lambda>name. name = ''webgl''),
        COMPILE_STATUS = (\<lambda>ty. ty = VERTEX_SHADER),
        LINK_STATUS = True, Date_now = (\<lambda>n. 1000 + 16 * int n)\<rparr>"
      "[]" "''block''" 1024 768 "[AnimationFrame, WindowResize 800 600]"]
  by (simp add: run_def iife_def compileShader_def gl_def use_fallback_def classList_add_def
      console_log_def page_load_def Let_def)

lemma resize_fields:
  "canvas_width (resize s) = innerWidth s"
  "canvas_height (resize s) = innerHeight s"
  "gl_viewport (resize s) = (0, 0, innerWidth s, innerHeight s)"
  "u_resolution (gl_uniforms (resize s)) = (real_of_int (innerWidth s), real_of_int (innerHeight s))"
  "innerWidth (resize s) = innerWidth s"
  "innerHeight (resize s) = innerHeight s"
  "gl_calls (resize s) = gl_calls s @
     [Viewport 0 0 (innerWidth s) (innerHeight s),
      Uniform2f ''u_resolution'' (real_of_int (innerWidth s)) (real_of_int (innerHeight s))]"
  "resize_listener (resize s) = resize_listener s"
  "render_requested (resize s) = render_requested s"
  by (simp_all add: resize_def gl_viewport_call_def gl_uniform2f_def gl_def Let_def)

lemma dispatch_resize:
  "resize_listener s \<Longrightarrow>
   dispatch b s (WindowResize w h) = resize (s\<lparr>innerWidth := w, innerHeight := h\<rparr>)"
  by (simp add: Let_def)

text \<open>
  Claim C7. For every reported window size with width and height at least \<open>1\<close>, after
  the resize handler has run on the resize event, the canvas's pixel width and height
  equal the window's \<^verbatim>\<open>innerWidth\<close> and \<^verbatim>\<open>innerHeight\<close>, the viewport of the context
  is set to those dimensions, and the resolution uniform holds the same two values.
\<close>

theorem resize_matches_window:
  assumes "1 \<le> w" and "1 \<le> h" and "resize_listener s"
  shows "let s' = dispatch b s (WindowResize w h) in
           innerWidth s' = w \<and> innerHeight s' = h
         \<and> canvas_width s' = innerWidth s' \<and> canvas_height s' = innerHeight s'
         \<and> canvas_width s' = w \<and> canvas_height s' = h
         \<and> gl_viewport s' = (0, 0, w, h)
         \<and> u_resolution (gl_uniforms s') = (real_of_int w, real_of_int h)"
  using assms by (simp add: dispatch_resize resize_fields Let_def del: dispatch.simps)

theorem resize_matches_window_witness:
  "(1::int) \<le> 800 \<and> (1::int) \<le> 600
   \<and> resize_listener
        (run \<lparr>getContext = (\<lambda>name. name = ''webgl''), COMPILE_STATUS = (\<lambda>ty. True),
              LINK_STATUS = True, Date_now = (\<lambda>n. 1000 + 16 * int n)\<rparr>
           (page_load [] ''block'' 1024 768) [AnimationFrame])
   \<and> (let s' = dispatch \<lparr>getContext = (\<lambda>name. name = ''webgl''), COMPILE_STATUS = (\<lambda>ty. True),
                         LINK_STATUS = True, Date_now = (\<lambda>n. 1000 + 16 * int n)\<rparr>
                  (run \<lparr>getContext = (\<lambda>name. name = ''webgl''), COMPILE_STATUS = (\<lambda>ty. True),
                        LINK_STATUS = True, Date_now = (\<lambda>n. 1000 + 16 * int n)\<rparr>
                     (page_load [] ''block'' 1024 768) [AnimationFrame])
                  (WindowResize 800 600)
      in canvas_width s' = 800 \<and> canvas_height s' = 600
       \<and> gl_viewport s' = (0, 0, 800, 600)
       \<and> u_resolution (gl_uniforms s') = (800, 600))"
proof -
  let ?b = "\<lparr>getContext = (\<lambda>name. name = ''webgl''), COMPILE_STATUS = (\<lambda>ty. True),
              LINK_STATUS = True, Date_now = (\<lambda>n. 1000 + 16 * int n)\<rparr>"
  let ?s = "run ?b (page_load [] ''block'' 1024 768) [AnimationFrame]"
  have l: "resize_listener ?s"
    by (simp add: run_def iife_def compileShader_def gl_def resize_def gl_viewport_call_def
        gl_uniform2f_def gl_uniform1f_def render_def date_now_def page_load_def Let_def)
  show ?thesis
    using l resize_matches_window [of 800 600 ?s ?b] by (simp add: Let_def del: dispatch.simps)
qed

lemma render_fields:
  "resize_listener (render b s) = resize_listener s"
  "render_requested (render b s)"
  "gl_calls (render b s) = gl_calls s @
     [Uniform1f ''u_time'' (real_of_int (Date_now b (clock_reads s) - startTime s) * 0.001),
      DrawArrays TRIANGLE_STRIP 0 4]"
  by (simp_all add: render_def date_now_def gl_uniform1f_def gl_def Let_def)

lemma iife_success:
  assumes "getContext b ''webgl'' \<or> getContext b ''experimental-webgl''"
    and "COMPILE_STATUS b VERTEX_SHADER" and "COMPILE_STATUS b FRAGMENT_SHADER"
    and "LINK_STATUS b"
  shows "resize_listener (iife b s) \<and> render_requested (iife b s)"
  using assms
  by (simp add: iife_def Let_def case_prod_beta render_fields date_now_def)

lemma dispatch_running:
  assumes "resize_listener s \<and> render_requested s"
  shows "resize_listener (dispatch b s e) \<and> render_requested (dispatch b s e)"
  using assms by (cases e) (simp_all add: Let_def resize_fields render_fields)

lemma events_running:
  assumes "resize_listener s \<and> render_requested s"
  shows "resize_listener (foldl (dispatch b) s evs) \<and> render_requested (foldl (dispatch b) s evs)"
  using assms
proof (induction evs arbitrary: s)
  case Nil
  then show ?case by simp
next
  case (Cons e evs)
  show ?case using Cons.IH [OF dispatch_running [OF Cons.prems]] by simp
qed

lemma run_success_listening:
  assumes "getContext b ''webgl'' \<or> getContext b ''experimental-webgl''"
    and "COMPILE_STATUS b VERTEX_SHADER" and "COMPILE_STATUS b FRAGMENT_SHADER"
    and "LINK_STATUS b"
  shows "resize_listener (run b s evs) \<and> render_requested (run b s evs)"
  unfolding run_def by (rule events_running) (rule iife_success [OF assms])

end
